theory Spec2Isabelle
  imports Main "HOL-Library.Multiset" "HOL-Library.AList"
begin

section \<open>Data model\<close>

text \<open>
  Modelled from the spec: the declaration of \<open>DNSRecord\<close> (its source file is not part of
  the sources at hand). The spec's RemoteRecord has an id, a name, a kind, the kind-specific
  target fields (address; cname; text; mxPreference+mxExchange;
  srvPriority+srvWeight+srvPort+srvTarget; ns), a ttl, a comment, disabled and addressList.
  The field names are the ones \<open>client.go\<close> and the tests read and write; every field is a
  Go string.
\<close>

record DNSRecord =
  ID :: string
  Name :: string
  Type :: string
  Address :: string
  CName :: string
  Text :: string
  MXExchange :: string
  MXPreference :: string
  SrvTarget :: string
  SrvPort :: string
  SrvPriority :: string
  SrvWeight :: string
  NS :: string
  TTL :: string
  Comment :: string
  Disabled :: string
  AddressList :: string

text \<open>
  \<open>endpoint.Endpoint\<close> of external-dns, with the fields this client reads.
\<close>

record Endpoint =
  DNSName :: string
  Targets :: "string list"
  RecordType :: string
  RecordTTL :: int
  ProviderSpecific :: "(string \<times> string) list"

record MikrotikDefaults =
  DefaultTTL :: int
  DefaultComment :: string

record MikrotikConnectionConfig =
  BaseUrl :: string
  Username :: string
  Password :: string
  SkipTLSVerify :: bool

text \<open>
  \<open>MikrotikApiClient\<close> embeds the defaults, the connection configuration and the
  \<open>http.Client\<close>; of the latter the model keeps the TLS setting. The \<open>deleteMutex\<close> has no
  counterpart: the model runs one call at a time.
\<close>

record MikrotikApiClient =
  Defaults :: MikrotikDefaults
  ConnectionConfig :: MikrotikConnectionConfig
  InsecureSkipVerify :: bool

text \<open>
  Go errors. Each \<open>fmt.Errorf\<close> of \<open>client.go\<close> is a constructor holding what its
  format string is filled with; \<open>LibraryError\<close> stands for an error that a library call
  (\<open>cookiejar.New\<close>, \<open>http.NewRequest\<close>, \<open>Client.Do\<close>, the JSON decoder,
  \<open>NewDNSRecords\<close>) hands back.
\<close>

datatype error =
    EmptyDefaultComment
  | LibraryError string
  | RequestFailed string
  | FailedToGetRecords string error
  | FailedToRefetch error
  | FailedToConvert error
  | FailedToCreateRecord nat error

subsection \<open>HTTP\<close>

text \<open>
  A request as \<open>doRequest\<close> builds it: the method, the URL \<open>BaseUrl/rest/path\<close>, the
  query parameters (kept as the list of the \<open>Set\<close> calls instead of their encoding in the
  URL), the basic-auth credentials and the body (the record that \<open>json.Marshal\<close> encodes;
  marshalling a struct of strings cannot fail).
\<close>

record Request =
  Method :: string
  URL :: string
  Query :: "(string \<times> string) list"
  BasicAuth :: "string \<times> string"
  Body :: "DNSRecord option"

text \<open>
  A response body is kept as what the JSON decoder makes of it: an array of records, one
  record, or anything else (which neither decoder accepts).
\<close>

datatype ResponseBody =
    JSONRecords "DNSRecord list"
  | JSONRecord DNSRecord
  | OtherBody string

record Response =
  StatusCode :: int
  Status :: string
  RespBody :: ResponseBody

text \<open>
  The two library calls whose outcome the client cannot determine are parameters:
  whether \<open>http.NewRequest\<close> rejects a method and URL, and what \<open>Client.Do\<close> returns for
  a request, as a function of the state \<open>'w\<close> of the world outside the client.
\<close>

record 'w HTTP =
  NewRequestError :: "string \<Rightarrow> string \<Rightarrow> (string \<times> string) list \<Rightarrow> error option"
  Do :: "Request \<Rightarrow> 'w \<Rightarrow> (error + Response) \<times> 'w"

text \<open>
  The state threaded through the client: the world, and the requests handed to
  \<open>Client.Do\<close> so far, oldest first.
\<close>

record 'w state =
  world :: 'w
  sent :: "Request list"

section \<open>The client\<close>

text \<open>\<open>NewMikrotikClient\<close>; \<open>jar\<close> is the outcome of \<open>cookiejar.New\<close>.\<close>

definition NewMikrotikClient ::
  "error option \<Rightarrow> MikrotikConnectionConfig \<Rightarrow> MikrotikDefaults \<Rightarrow> error + MikrotikApiClient" where
  "NewMikrotikClient jar config defaults =
     (if DefaultComment defaults = '''' then Inl EmptyDefaultComment
      else case jar of
        Some err \<Rightarrow> Inl err
      | None \<Rightarrow> Inr \<lparr>Defaults = defaults, ConnectionConfig = config,
                      InsecureSkipVerify = SkipTLSVerify config\<rparr>)"

definition doRequest ::
  "'w HTTP \<Rightarrow> MikrotikApiClient \<Rightarrow> string \<Rightarrow> string \<Rightarrow> (string \<times> string) list \<Rightarrow>
     DNSRecord option \<Rightarrow> 'w state \<Rightarrow> (error + Response) \<times> 'w state" where
  "doRequest h c method path queryParams body s =
     (let baseURL = BaseUrl (ConnectionConfig c) @ ''/rest/'' @ path in
      case NewRequestError h method baseURL queryParams of
        Some err \<Rightarrow> (Inl err, s)
      | None \<Rightarrow>
          (let req = \<lparr>Method = method, URL = baseURL, Query = queryParams,
                      BasicAuth = (Username (ConnectionConfig c), Password (ConnectionConfig c)),
                      Body = body\<rparr>;
               (r, w') = Do h req (world s);
               s' = \<lparr>world = w', sent = sent s @ [req]\<rparr>
           in case r of
                Inl err \<Rightarrow> (Inl err, s')
              | Inr resp \<Rightarrow>
                  if StatusCode resp < 200 \<or> StatusCode resp > 299
                  then (Inl (RequestFailed (Status resp)), s')
                  else (Inr resp, s')))"

text \<open>Decoding a body into \<open>[]DNSRecord\<close> and into \<open>DNSRecord\<close>.\<close>

fun decodeRecords :: "ResponseBody \<Rightarrow> error + DNSRecord list" where
  "decodeRecords (JSONRecords rs) = Inr rs"
| "decodeRecords (JSONRecord r) = Inl (LibraryError ''json: cannot unmarshal object'')"
| "decodeRecords (OtherBody b) = Inl (LibraryError ''json: invalid body'')"

fun decodeRecord :: "ResponseBody \<Rightarrow> error + DNSRecord" where
  "decodeRecord (JSONRecord r) = Inr r"
| "decodeRecord (JSONRecords rs) = Inl (LibraryError ''json: cannot unmarshal array'')"
| "decodeRecord (OtherBody b) = Inl (LibraryError ''json: invalid body'')"

definition GetDNSRecordsByName ::
  "'w HTTP \<Rightarrow> MikrotikApiClient \<Rightarrow> string \<Rightarrow> 'w state \<Rightarrow> (error + DNSRecord list) \<times> 'w state" where
  "GetDNSRecordsByName h c name s =
     (let queryParams =
            [(''type'', ''A,AAAA,CNAME,TXT,MX,SRV,NS''),
             (''comment'', DefaultComment (Defaults c))]
            @ (if name \<noteq> '''' then [(''name'', name)] else [])
      in case doRequest h c ''GET'' ''ip/dns/static'' queryParams None s of
           (Inl err, s') \<Rightarrow> (Inl err, s')
         | (Inr resp, s') \<Rightarrow> (decodeRecords (RespBody resp), s'))"

fun getRecordTarget :: "DNSRecord \<Rightarrow> string" where
  "getRecordTarget record =
     (if Type record = ''A'' \<or> Type record = ''AAAA'' then Address record
      else if Type record = ''CNAME'' then CName record
      else if Type record = ''TXT'' then Text record
      else if Type record = ''MX'' then MXExchange record
      else if Type record = ''SRV'' then SrvTarget record
      else if Type record = ''NS'' then NS record
      else '''')"

fun recordsMatch :: "DNSRecord \<Rightarrow> DNSRecord \<Rightarrow> bool" where
  "recordsMatch record1 record2 =
     (if Name record1 \<noteq> Name record2 \<or> Type record1 \<noteq> Type record2 then False
      else if Type record1 = ''A'' \<or> Type record1 = ''AAAA'' then Address record1 = Address record2
      else if Type record1 = ''CNAME'' then CName record1 = CName record2
      else if Type record1 = ''TXT'' then Text record1 = Text record2
      else if Type record1 = ''MX'' then
        MXExchange record1 = MXExchange record2 \<and> MXPreference record1 = MXPreference record2
      else if Type record1 = ''SRV'' then
        SrvTarget record1 = SrvTarget record2 \<and> SrvPort record1 = SrvPort record2 \<and>
        SrvPriority record1 = SrvPriority record2 \<and> SrvWeight record1 = SrvWeight record2
      else if Type record1 = ''NS'' then NS record1 = NS record2
      else Comment record1 = Comment record2)"

subsection \<open>Deleting\<close>

text \<open>
  The inner loop of the candidate search: is the record's target one of the targets to
  delete (the loop stops at the first equal one).
\<close>

fun targetListed :: "string \<Rightarrow> string list \<Rightarrow> bool" where
  "targetListed recordTarget [] = False"
| "targetListed recordTarget (targetToDelete # rest) =
     (if recordTarget = targetToDelete then True else targetListed recordTarget rest)"

text \<open>
  The first loop of \<open>DeleteDNSRecords\<close>: it walks the fetched records and appends the
  ones to delete to \<open>recordsToDelete\<close>.
\<close>

fun collectRecordsToDelete ::
  "MikrotikApiClient \<Rightarrow> Endpoint \<Rightarrow> DNSRecord list \<Rightarrow> DNSRecord list \<Rightarrow> DNSRecord list" where
  "collectRecordsToDelete c endpoint [] recordsToDelete = recordsToDelete"
| "collectRecordsToDelete c endpoint (record # rest) recordsToDelete =
     collectRecordsToDelete c endpoint rest
       (if Name record = DNSName endpoint \<and> Type record = RecordType endpoint then
          (if Comment record = DefaultComment (Defaults c) then
             (if length (Targets endpoint) > 0 then
                (let recordTarget = getRecordTarget record in
                 if recordTarget \<noteq> '''' then
                   (if targetListed recordTarget (Targets endpoint)
                    then recordsToDelete @ [record] else recordsToDelete)
                 else recordsToDelete)
              else recordsToDelete @ [record])
           else recordsToDelete)
        else recordsToDelete)"

text \<open>
  The search in the re-fetched records: the first current record that \<open>recordsMatch\<close>
  accepts for the original one, or none (\<open>updatedRecord == nil\<close>).
\<close>

fun findUpdatedRecord :: "DNSRecord \<Rightarrow> DNSRecord list \<Rightarrow> DNSRecord option" where
  "findUpdatedRecord record [] = None"
| "findUpdatedRecord record (currentRecord # rest) =
     (if recordsMatch record currentRecord then Some currentRecord
      else findUpdatedRecord record rest)"

text \<open>The deletion itself, the end of the loop body.\<close>

definition performDeletion ::
  "'w HTTP \<Rightarrow> MikrotikApiClient \<Rightarrow> DNSRecord \<Rightarrow> 'w state \<Rightarrow> error option \<times> 'w state" where
  "performDeletion h c record s =
     (case doRequest h c ''DELETE'' (''ip/dns/static/'' @ ID record) [] None s of
        (Inl err, s') \<Rightarrow> (Some err, s')
      | (Inr resp, s') \<Rightarrow> (None, s'))"

text \<open>
  One pass through the body of the second loop, for the candidate \<open>record\<close> at index
  \<open>i\<close>. \<open>Some err\<close> is a \<open>return err\<close>; \<open>None\<close> is the end of the body or
  \<open>continue\<close>.
\<close>

definition deleteIteration ::
  "'w HTTP \<Rightarrow> MikrotikApiClient \<Rightarrow> Endpoint \<Rightarrow> nat \<Rightarrow> DNSRecord \<Rightarrow> 'w state \<Rightarrow>
     error option \<times> 'w state" where
  "deleteIteration h c endpoint i record s =
     (if i > 0 then
        (case GetDNSRecordsByName h c (DNSName endpoint) s of
           (Inl err, s') \<Rightarrow> (Some (FailedToRefetch err), s')
         | (Inr currentRecords, s') \<Rightarrow>
             (case findUpdatedRecord record currentRecords of
                None \<Rightarrow> (None, s')
              | Some updatedRecord \<Rightarrow> performDeletion h c updatedRecord s'))
      else performDeletion h c record s)"

fun deleteLoop ::
  "'w HTTP \<Rightarrow> MikrotikApiClient \<Rightarrow> Endpoint \<Rightarrow> nat \<Rightarrow> DNSRecord list \<Rightarrow> 'w state \<Rightarrow>
     error option \<times> 'w state" where
  "deleteLoop h c endpoint i [] s = (None, s)"
| "deleteLoop h c endpoint i (record # rest) s =
     (case deleteIteration h c endpoint i record s of
        (Some err, s') \<Rightarrow> (Some err, s')
      | (None, s') \<Rightarrow> deleteLoop h c endpoint (Suc i) rest s')"

definition DeleteDNSRecords ::
  "'w HTTP \<Rightarrow> MikrotikApiClient \<Rightarrow> Endpoint \<Rightarrow> 'w state \<Rightarrow> error option \<times> 'w state" where
  "DeleteDNSRecords h c endpoint s =
     (case GetDNSRecordsByName h c (DNSName endpoint) s of
        (Inl err, s') \<Rightarrow> (Some (FailedToGetRecords (DNSName endpoint) err), s')
      | (Inr allRecords, s') \<Rightarrow>
          (let recordsToDelete = collectRecordsToDelete c endpoint allRecords [] in
           if length recordsToDelete = 0 then (None, s')
           else deleteLoop h c endpoint 0 recordsToDelete s'))"

subsection \<open>Creating\<close>

definition createSingleDNSRecord ::
  "'w HTTP \<Rightarrow> MikrotikApiClient \<Rightarrow> DNSRecord \<Rightarrow> 'w state \<Rightarrow> (error + DNSRecord) \<times> 'w state" where
  "createSingleDNSRecord h c record s =
     (case doRequest h c ''PUT'' ''ip/dns/static'' [] (Some record) s of
        (Inl err, s') \<Rightarrow> (Inl err, s')
      | (Inr resp, s') \<Rightarrow> (decodeRecord (RespBody resp), s'))"

text \<open>
  The second loop of \<open>CreateDNSRecords\<close>, at index \<open>i\<close> with \<open>createdRecords\<close> so far.
  Go returns the pair of the slice and the error, so the result is a pair as well.
\<close>

fun createLoop ::
  "'w HTTP \<Rightarrow> MikrotikApiClient \<Rightarrow> nat \<Rightarrow> DNSRecord list \<Rightarrow> DNSRecord list \<Rightarrow> 'w state \<Rightarrow>
     (DNSRecord list \<times> error option) \<times> 'w state" where
  "createLoop h c i [] createdRecords s = ((createdRecords, None), s)"
| "createLoop h c i (record # rest) createdRecords s =
     (case createSingleDNSRecord h c record s of
        (Inl err, s') \<Rightarrow> ((createdRecords, Some (FailedToCreateRecord (i + 1) err)), s')
      | (Inr createdRecord, s') \<Rightarrow>
          createLoop h c (Suc i) rest (createdRecords @ [createdRecord]) s')"

text \<open>
  \<open>CreateDNSRecords\<close>. \<open>NewDNSRecords\<close> (the conversion of an endpoint into one record
  per target) is not part of the sources at hand and is the parameter \<open>newDNSRecords\<close>.
  The first loop writes the comment through the pointers the conversion returned; the
  model maps over the records.
\<close>

definition CreateDNSRecords ::
  "(Endpoint \<Rightarrow> error + DNSRecord list) \<Rightarrow> 'w HTTP \<Rightarrow> MikrotikApiClient \<Rightarrow> Endpoint \<Rightarrow>
     'w state \<Rightarrow> (DNSRecord list \<times> error option) \<times> 'w state" where
  "CreateDNSRecords newDNSRecords h c ep s =
     (case newDNSRecords ep of
        Inl err \<Rightarrow> (([], Some (FailedToConvert err)), s)
      | Inr records \<Rightarrow>
          createLoop h c 0
            (map (\<lambda>record. record\<lparr>Comment := DefaultComment (Defaults c)\<rparr>) records) [] s)"

section \<open>Reading the code's behaviour off the model\<close>

subsection \<open>The requests the client builds\<close>

text \<open>
  The request that \<open>doRequest\<close> hands to \<open>Client.Do\<close> for a method, path, query and body,
  and the three kinds of request the client makes of it.
\<close>

definition requestOf ::
  "MikrotikApiClient \<Rightarrow> string \<Rightarrow> string \<Rightarrow> (string \<times> string) list \<Rightarrow> DNSRecord option \<Rightarrow> Request" where
  "requestOf c method path queryParams body =
     \<lparr>Method = method, URL = BaseUrl (ConnectionConfig c) @ ''/rest/'' @ path,
      Query = queryParams,
      BasicAuth = (Username (ConnectionConfig c), Password (ConnectionConfig c)),
      Body = body\<rparr>"

definition fetchRequest :: "MikrotikApiClient \<Rightarrow> string \<Rightarrow> Request" where
  "fetchRequest c name =
     requestOf c ''GET'' ''ip/dns/static''
       ([(''type'', ''A,AAAA,CNAME,TXT,MX,SRV,NS''), (''comment'', DefaultComment (Defaults c))]
        @ (if name \<noteq> '''' then [(''name'', name)] else [])) None"

definition deleteRequest :: "MikrotikApiClient \<Rightarrow> string \<Rightarrow> Request" where
  "deleteRequest c recordID = requestOf c ''DELETE'' (''ip/dns/static/'' @ recordID) [] None"

definition createRequest :: "MikrotikApiClient \<Rightarrow> DNSRecord \<Rightarrow> Request" where
  "createRequest c record = requestOf c ''PUT'' ''ip/dns/static'' [] (Some record)"

definition isDelete :: "Request \<Rightarrow> bool" where
  "isDelete req \<longleftrightarrow> Method req = ''DELETE''"

text \<open>The requests issued between two states of a run.\<close>

definition issued :: "'w state \<Rightarrow> 'w state \<Rightarrow> Request list" where
  "issued s s' = drop (length (sent s)) (sent s')"

text \<open>
  The candidate condition in the spec's words: name, kind and comment (ownership tag)
  match and, if the endpoint names targets, the decoded target is non-empty and one of
  them.
\<close>

definition isCandidate :: "MikrotikApiClient \<Rightarrow> Endpoint \<Rightarrow> DNSRecord \<Rightarrow> bool" where
  "isCandidate c endpoint r \<longleftrightarrow>
     Name r = DNSName endpoint \<and> Type r = RecordType endpoint \<and>
     Comment r = DefaultComment (Defaults c) \<and>
     (Targets endpoint = [] \<or>
      getRecordTarget r \<noteq> '''' \<and> getRecordTarget r \<in> set (Targets endpoint))"

text \<open>
  The create pipeline in the spec's words: the records that the single creates return,
  one after the other, up to the first create that fails.
\<close>

fun createdUntilFailure ::
  "'w HTTP \<Rightarrow> MikrotikApiClient \<Rightarrow> DNSRecord list \<Rightarrow> 'w state \<Rightarrow> DNSRecord list" where
  "createdUntilFailure h c [] s = []"
| "createdUntilFailure h c (record # rest) s =
     (case createSingleDNSRecord h c record s of
        (Inl err, s') \<Rightarrow> []
      | (Inr createdRecord, s') \<Rightarrow> createdRecord # createdUntilFailure h c rest s')"

text \<open>The assignment of the first loop of \<open>CreateDNSRecords\<close>.\<close>

definition setComment :: "MikrotikApiClient \<Rightarrow> DNSRecord \<Rightarrow> DNSRecord" where
  "setComment c record = record\<lparr>Comment := DefaultComment (Defaults c)\<rparr>"

text \<open>
  The methods of \<open>n\<close> rounds of re-fetch and delete.
\<close>

definition refetchDelete :: "nat \<Rightarrow> string list" where
  "refetchDelete n = concat (replicate n [''GET'', ''DELETE''])"

subsection \<open>Example worlds\<close>

text \<open>
  A server that answers the requests it receives with a fixed list of replies, in turn,
  and refuses the connection once the list is used up. \<open>http.NewRequest\<close> accepts
  everything.
\<close>

definition scripted :: "((error + Response) list) HTTP" where
  "scripted = \<lparr>NewRequestError = (\<lambda>method url query. None),
               Do = (\<lambda>req replies. case replies of
                       [] \<Rightarrow> (Inl (LibraryError ''connection refused''), [])
                     | reply # rest \<Rightarrow> (reply, rest))\<rparr>"

definition ok :: "ResponseBody \<Rightarrow> error + Response" where
  "ok b = Inr \<lparr>StatusCode = 200, Status = ''200 OK'', RespBody = b\<rparr>"

definition failure :: "int \<Rightarrow> string \<Rightarrow> error + Response" where
  "failure code text = Inr \<lparr>StatusCode = code, Status = text, RespBody = OtherBody text\<rparr>"

definition start :: "'w \<Rightarrow> 'w state" where
  "start w = \<lparr>world = w, sent = []\<rparr>"

definition exampleClient :: MikrotikApiClient where
  "exampleClient =
     \<lparr>Defaults = \<lparr>DefaultTTL = 3600, DefaultComment = ''external-dns''\<rparr>,
      ConnectionConfig = \<lparr>BaseUrl = ''https://router'', Username = ''testuser'',
                          Password = ''testpass'', SkipTLSVerify = True\<rparr>,
      InsecureSkipVerify = True\<rparr>"

text \<open>Go's zero \<open>DNSRecord{}\<close>, and an A record as the tests write them.\<close>

definition zeroRecord :: DNSRecord where
  "zeroRecord =
     \<lparr>ID = '''', Name = '''', Type = '''', Address = '''', CName = '''', Text = '''',
      MXExchange = '''', MXPreference = '''', SrvTarget = '''', SrvPort = '''',
      SrvPriority = '''', SrvWeight = '''', NS = '''', TTL = '''', Comment = '''',
      Disabled = '''', AddressList = ''''\<rparr>"

definition aRecord :: "string \<Rightarrow> string \<Rightarrow> string \<Rightarrow> string \<Rightarrow> DNSRecord" where
  "aRecord recordID name address comment =
     zeroRecord\<lparr>ID := recordID, Name := name, Type := ''A'', Address := address,
                Comment := comment\<rparr>"

definition exampleEndpoint :: "string list \<Rightarrow> Endpoint" where
  "exampleEndpoint targets =
     \<lparr>DNSName = ''multi.example.com'', Targets = targets, RecordType = ''A'',
      RecordTTL = 3600, ProviderSpecific = []\<rparr>"

text \<open>
  An example of the conversion handed to \<open>CreateDNSRecords\<close>: one A record per target,
  each with a comment of the caller's.
\<close>

definition exampleNewDNSRecords :: "Endpoint \<Rightarrow> error + DNSRecord list" where
  "exampleNewDNSRecords ep =
     Inr (map (\<lambda>target. aRecord [] (DNSName ep) target ''set by the caller'') (Targets ep))"

subsection \<open>The mock server of the integration tests\<close>

text \<open>
  \<open>MockMikrotikServer\<close> of \<open>test/integration\<close>, the repository's own stand-in for the
  router: the requests it captured, its records by ID, the next ID, and the error it is
  set to return. The Go map of records is an association list with distinct keys.
\<close>

record MockMikrotikServer =
  requests :: "Request list"
  records :: "(string \<times> DNSRecord) list"
  nextID :: nat
  returnError :: bool
  errorCode :: int










fun splitOn :: "char \<Rightarrow> string \<Rightarrow> string list" where
  "splitOn sep [] = [[]]"
| "splitOn sep (x # xs) =
     (if x = sep then [] # splitOn sep xs
      else case splitOn sep xs of
             [] \<Rightarrow> [[x]]
           | y # ys \<Rightarrow> (x # y) # ys)"

definition isSpace :: "char \<Rightarrow> bool" where
  "isSpace ch \<longleftrightarrow> ch \<in> {CHR '' '', CHR 0x09, CHR 0x0A, CHR 0x0B, CHR 0x0C, CHR 0x0D}"

definition trimSpace :: "string \<Rightarrow> string" where
  "trimSpace str = rev (dropWhile isSpace (rev (dropWhile isSpace str)))"


text \<open>
  The filters of \<open>handleGetDNSRecords\<close>: a record is skipped if a name is asked for and
  is not the record's, if a comment is asked for and is not the record's, or if types are
  asked for and the record's is none of them.
\<close>

definition recordVisible :: "string \<Rightarrow> string \<Rightarrow> string \<Rightarrow> DNSRecord \<Rightarrow> bool" where
  "recordVisible name recordType comment record \<longleftrightarrow>
     \<not> (name \<noteq> '''' \<and> Name record \<noteq> name) \<and>
     \<not> (comment \<noteq> '''' \<and> Comment record \<noteq> comment) \<and>
     \<not> (recordType \<noteq> '''' \<and>
        Type record \<notin> set (map trimSpace (splitOn CHR '','' recordType)))"






text \<open>
  What \<open>recordsMatch\<close> compares, as a key: name, kind and the fields of the kind.
\<close>

definition matchKey :: "DNSRecord \<Rightarrow> string \<times> string \<times> string list" where
  "matchKey r =
     (Name r, Type r,
      if Type r = ''A'' \<or> Type r = ''AAAA'' then [Address r]
      else if Type r = ''CNAME'' then [CName r]
      else if Type r = ''TXT'' then [Text r]
      else if Type r = ''MX'' then [MXExchange r, MXPreference r]
      else if Type r = ''SRV'' then [SrvTarget r, SrvPort r, SrvPriority r, SrvWeight r]
      else if Type r = ''NS'' then [NS r]
      else [Comment r])"

text \<open>
  The state of the mock server in which the delete loop is studied: no error is set,
  and every record is stored once, under its own ID (as \<open>AddRecord\<close> and the create
  handler store it).
\<close>

definition mockServing :: "MockMikrotikServer \<Rightarrow> bool" where
  "mockServing m \<longleftrightarrow>
     \<not> returnError m \<and> distinct (map fst (records m)) \<and>
     list_all (\<lambda>(k, r). ID r = k) (records m)"


text \<open>
  What the mock server shows the client that asks for a name: the filter of the fetch
  request, with the types and the comment the client always sends.
\<close>

definition mockVisible :: "MikrotikApiClient \<Rightarrow> string \<Rightarrow> DNSRecord \<Rightarrow> bool" where
  "mockVisible c name =
     recordVisible name ''A,AAAA,CNAME,TXT,MX,SRV,NS'' (DefaultComment (Defaults c))"

text \<open>
  The records on the mock server that a fetch for the endpoint shows and that are
  candidates of its deletion, as a multiset.
\<close>

definition storedCandidates :: "MikrotikApiClient \<Rightarrow> Endpoint \<Rightarrow> MockMikrotikServer \<Rightarrow> DNSRecord multiset" where
  "storedCandidates c ep m =
     filter_mset (\<lambda>r. mockVisible c (DNSName ep) r \<and> isCandidate c ep r)
       (mset (map snd (records m)))"



section \<open>Basic facts\<close>

lemma targetListed_iff: "targetListed t ts \<longleftrightarrow> t \<in> set ts"
  by (induction ts) auto

lemma collect_acc:
  "collectRecordsToDelete c ep rs acc = acc @ filter (isCandidate c ep) rs"
  by (induction rs arbitrary: acc)
     (simp_all add: isCandidate_def targetListed_iff Let_def del: getRecordTarget.simps)

lemma candidates_carry_tag:
  "r \<in> set (collectRecordsToDelete c ep allRecords []) \<Longrightarrow>
   Comment r = DefaultComment (Defaults c)"
  by (simp add: collect_acc isCandidate_def)

lemma doRequest_rejected:
  "NewRequestError h m (BaseUrl (ConnectionConfig c) @ ''/rest/'' @ p) q = Some e \<Longrightarrow>
   doRequest h c m p q b s = (Inl e, s)"
  by (simp add: doRequest_def)

lemma doRequest_passed:
  "NewRequestError h m (BaseUrl (ConnectionConfig c) @ ''/rest/'' @ p) q = None \<Longrightarrow>
   doRequest h c m p q b s =
     (case fst (Do h (requestOf c m p q b) (world s)) of
        Inl err \<Rightarrow> Inl err
      | Inr resp \<Rightarrow> if StatusCode resp < 200 \<or> StatusCode resp > 299
                    then Inl (RequestFailed (Status resp)) else Inr resp,
      \<lparr>world = snd (Do h (requestOf c m p q b) (world s)),
       sent = sent s @ [requestOf c m p q b]\<rparr>)"
  by (simp add: doRequest_def requestOf_def Let_def split: prod.splits sum.splits)

lemma doRequest_log:
  "doRequest h c m p q b s = (r, s') \<Longrightarrow>
   (\<exists>e. r = Inl e \<and> s' = s) \<or> sent s' = sent s @ [requestOf c m p q b]"
  by (cases "NewRequestError h m (BaseUrl (ConnectionConfig c) @ ''/rest/'' @ p) q")
     (auto simp: doRequest_passed doRequest_rejected)

lemma createSingle_log:
  "createSingleDNSRecord h c record s = (x, s') \<Longrightarrow>
   (\<exists>e. x = Inl e \<and> s' = s) \<or> sent s' = sent s @ [createRequest c record]"
  unfolding createSingleDNSRecord_def createRequest_def
  by (auto split: prod.splits sum.splits dest: doRequest_log)

lemma createLoop_run:
  "createLoop h c i recs acc s = ((created, err), s') \<Longrightarrow>
   created = acc @ createdUntilFailure h c recs s \<and>
   (\<exists>k. k \<le> length recs \<and> sent s' = sent s @ map (createRequest c) (take k recs) \<and>
      (case err of
         None \<Rightarrow> k = length recs \<and> length (createdUntilFailure h c recs s) = length recs
       | Some e \<Rightarrow>
           length (createdUntilFailure h c recs s) < length recs \<and>
           length (createdUntilFailure h c recs s) \<le> k \<and>
           k \<le> length (createdUntilFailure h c recs s) + 1 \<and>
           (\<exists>e0. e = FailedToCreateRecord (i + length (createdUntilFailure h c recs s) + 1) e0)))"
proof (induction recs arbitrary: i acc s)
  case Nil
  then show ?case by auto
next
  case (Cons r rest)
  obtain x s1 where single: "createSingleDNSRecord h c r s = (x, s1)"
    by (cases "createSingleDNSRecord h c r s")
  note log = createSingle_log [OF single]
  show ?case
  proof (cases x)
    case (Inl e)
    with Cons.prems single have res: "created = acc" "err = Some (FailedToCreateRecord (i + 1) e)" "s' = s1"
      by auto
    from log show ?thesis
    proof
      assume "\<exists>e. x = Inl e \<and> s1 = s"
      then have "sent s' = sent s @ map (createRequest c) (take 0 (r # rest))"
        using res by simp
      then show ?thesis using res single Inl by (intro conjI exI [of _ 0]) auto
    next
      assume "sent s1 = sent s @ [createRequest c r]"
      then have "sent s' = sent s @ map (createRequest c) (take 1 (r # rest))"
        using res by simp
      then show ?thesis using res single Inl by (intro conjI exI [of _ 1]) auto
    qed
  next
    case (Inr createdRecord)
    with log have sent1: "sent s1 = sent s @ [createRequest c r]" by auto
    from Cons.prems single Inr
    have "createLoop h c (Suc i) rest (acc @ [createdRecord]) s1 = ((created, err), s')"
      by simp
    from Cons.IH [OF this] obtain k where
      cr: "created = (acc @ [createdRecord]) @ createdUntilFailure h c rest s1"
      and k: "k \<le> length rest" "sent s' = sent s1 @ map (createRequest c) (take k rest)"
      and e: "(case err of
         None \<Rightarrow> k = length rest \<and> length (createdUntilFailure h c rest s1) = length rest
       | Some e \<Rightarrow>
           length (createdUntilFailure h c rest s1) < length rest \<and>
           length (createdUntilFailure h c rest s1) \<le> k \<and>
           k \<le> length (createdUntilFailure h c rest s1) + 1 \<and>
           (\<exists>e0. e = FailedToCreateRecord (Suc i + length (createdUntilFailure h c rest s1) + 1) e0))"
      by blast
    have cuf: "createdUntilFailure h c (r # rest) s = createdRecord # createdUntilFailure h c rest s1"
      using single Inr by simp
    have "sent s' = sent s @ map (createRequest c) (take (Suc k) (r # rest))"
      using k sent1 by simp
    moreover have "Suc k \<le> length (r # rest)" using k by simp
    ultimately show ?thesis
      using cr e cuf by (intro conjI exI [of _ "Suc k"]) (auto split: option.splits)
  qed
qed


lemma issued_append [simp]: "sent s' = sent s @ reqs \<Longrightarrow> issued s s' = reqs"
  by (simp add: issued_def)

lemma CreateDNSRecords_run:
  assumes "newDNSRecords ep = Inr recs"
    and "CreateDNSRecords newDNSRecords h c ep s = ((created, err), s')"
  shows "created = createdUntilFailure h c (map (setComment c) recs) s \<and>
     (\<exists>k. k \<le> length recs \<and>
        sent s' = sent s @ map (createRequest c) (take k (map (setComment c) recs)) \<and>
        (case err of
           None \<Rightarrow> k = length recs \<and> length created = length recs
         | Some e \<Rightarrow>
             length created < length recs \<and> length created \<le> k \<and>
             k \<le> length created + 1 \<and>
             (\<exists>e0. e = FailedToCreateRecord (length created + 1) e0)))"
proof -
  have "createLoop h c 0 (map (setComment c) recs) [] s = ((created, err), s')"
    using assms by (simp add: CreateDNSRecords_def setComment_def [abs_def])
  from createLoop_run [OF this] obtain k where
    cr: "created = createdUntilFailure h c (map (setComment c) recs) s"
    and k: "k \<le> length recs"
      "sent s' = sent s @ map (createRequest c) (take k (map (setComment c) recs))"
    and e: "(case err of
         None \<Rightarrow> k = length recs \<and> length created = length recs
       | Some e \<Rightarrow>
           length created < length recs \<and> length created \<le> k \<and>
           k \<le> length created + 1 \<and>
           (\<exists>e0. e = FailedToCreateRecord (length created + 1) e0))"
    by (auto split: option.splits)
  then show ?thesis by (intro conjI exI [of _ k]) simp_all
qed

lemmas run_simps =
  CreateDNSRecords_def createSingleDNSRecord_def doRequest_def scripted_def start_def
  ok_def failure_def exampleClient_def exampleEndpoint_def exampleNewDNSRecords_def
  aRecord_def zeroRecord_def createRequest_def requestOf_def setComment_def issued_def
  isDelete_def

subsection \<open>The requests of the delete loop\<close>

lemma GetDNSRecordsByName_log:
  "GetDNSRecordsByName h c name s = (x, s') \<Longrightarrow>
   (\<exists>e. x = Inl e \<and> s' = s) \<or> sent s' = sent s @ [fetchRequest c name]"
  unfolding GetDNSRecordsByName_def fetchRequest_def Let_def
  by (auto split: prod.splits sum.splits dest: doRequest_log)

lemma performDeletion_log:
  "performDeletion h c r s = (x, s') \<Longrightarrow>
   (\<exists>e. x = Some e \<and> s' = s) \<or> sent s' = sent s @ [deleteRequest c (ID r)]"
  unfolding performDeletion_def deleteRequest_def
  by (auto split: prod.splits sum.splits dest: doRequest_log)

lemma findUpdatedRecord_find: "findUpdatedRecord r currentRecords = find (recordsMatch r) currentRecords"
  by (induction currentRecords) (simp_all del: recordsMatch.simps)

lemma isDelete_requests [simp]:
  "\<not> isDelete (fetchRequest c name)" "isDelete (deleteRequest c recordID)"
  "\<not> isDelete (createRequest c r)"
  "Method (fetchRequest c name) = ''GET''" "Method (deleteRequest c recordID) = ''DELETE''"
  by (simp_all add: isDelete_def fetchRequest_def deleteRequest_def createRequest_def requestOf_def)

lemma deleteIteration_zero:
  "deleteIteration h c ep 0 r s = (x, s') \<Longrightarrow>
   (\<exists>e. x = Some e \<and> s' = s) \<or> sent s' = sent s @ [deleteRequest c (ID r)]"
  by (auto simp: deleteIteration_def dest: performDeletion_log)

lemma deleteIteration_pos:
  assumes "0 < i" and "deleteIteration h c ep i r s = (x, s')"
  shows "(\<exists>e. x = Some e \<and> s' = s) \<or>
         (sent s' = sent s @ [fetchRequest c (DNSName ep)] \<and>
            (x = None \<longrightarrow> (\<exists>cur s1. GetDNSRecordsByName h c (DNSName ep) s = (Inr cur, s1) \<and>
                               find (recordsMatch r) cur = None))) \<or>
         (\<exists>cur s1 u. GetDNSRecordsByName h c (DNSName ep) s = (Inr cur, s1) \<and>
            find (recordsMatch r) cur = Some u \<and>
            sent s' = sent s @ [fetchRequest c (DNSName ep), deleteRequest c (ID u)])"
proof -
  obtain y s1 where fetch: "GetDNSRecordsByName h c (DNSName ep) s = (y, s1)"
    by (cases "GetDNSRecordsByName h c (DNSName ep) s")
  note flog = GetDNSRecordsByName_log [OF fetch]
  show ?thesis
  proof (cases y)
    case (Inl e)
    with assms fetch have "x = Some (FailedToRefetch e)" "s' = s1"
      by (auto simp: deleteIteration_def)
    with flog Inl show ?thesis by auto
  next
    case (Inr cur)
    with flog have s1: "sent s1 = sent s @ [fetchRequest c (DNSName ep)]" by auto
    show ?thesis
    proof (cases "find (recordsMatch r) cur")
      case None
      with assms fetch Inr have "x = None" "s' = s1"
        by (auto simp: deleteIteration_def findUpdatedRecord_find)
      with s1 fetch Inr None show ?thesis by auto
    next
      case (Some u)
      with assms fetch Inr have "performDeletion h c u s1 = (x, s')"
        by (auto simp: deleteIteration_def findUpdatedRecord_find)
      from performDeletion_log [OF this] show ?thesis
      proof
        assume "\<exists>e. x = Some e \<and> s' = s1"
        with s1 show ?thesis by auto
      next
        assume "sent s' = sent s1 @ [deleteRequest c (ID u)]"
        with s1 fetch Inr Some show ?thesis by auto
      qed
    qed
  qed
qed

lemma deleteIteration_pos_count:
  assumes "0 < i" and "deleteIteration h c ep i r s = (x, s')"
  shows "\<exists>reqs. sent s' = sent s @ reqs \<and> length reqs \<le> 2 \<and>
           length (filter isDelete reqs) \<le> 1 \<and>
           (x = None \<longrightarrow> length reqs = 1 + length (filter isDelete reqs)) \<and>
           (x = None \<and> filter isDelete reqs \<noteq> [] \<longrightarrow> map Method reqs = [''GET'', ''DELETE''])"
proof -
  from deleteIteration_pos [OF assms] consider
      (none) "\<exists>e. x = Some e" "s' = s"
    | (fetch) "sent s' = sent s @ [fetchRequest c (DNSName ep)]"
    | (both) u :: DNSRecord where
        "sent s' = sent s @ [fetchRequest c (DNSName ep), deleteRequest c (ID u)]"
    by blast
  then show ?thesis
  proof cases
    case none
    then show ?thesis by (intro exI [of _ "[]"]) auto
  next
    case fetch
    then show ?thesis by (intro exI [of _ "[fetchRequest c (DNSName ep)]"]) simp
  next
    case both
    then show ?thesis
      by (intro exI [of _ "[fetchRequest c (DNSName ep), deleteRequest c (ID u)]"]) simp
  qed
qed

lemma deleteLoop_pos_count:
  assumes "0 < i" and "deleteLoop h c ep i cands s = (x, s')"
  shows "\<exists>reqs. sent s' = sent s @ reqs \<and> length reqs \<le> 2 * length cands \<and>
           length (filter isDelete reqs) \<le> length cands \<and>
           (x = None \<longrightarrow> length reqs = length cands + length (filter isDelete reqs)) \<and>
           (x = None \<and> length (filter isDelete reqs) = length cands \<longrightarrow>
              map Method reqs = refetchDelete (length cands))"
  using assms
proof (induction cands arbitrary: i s)
  case Nil
  then show ?case by (simp add: refetchDelete_def)
next
  case (Cons r rest)
  obtain y s1 where it: "deleteIteration h c ep i r s = (y, s1)"
    by (cases "deleteIteration h c ep i r s")
  from deleteIteration_pos_count [OF Cons.prems(1) it] obtain r1 where
    all1: "sent s1 = sent s @ r1 \<and> length r1 \<le> 2 \<and> length (filter isDelete r1) \<le> 1 \<and>
      (y = None \<longrightarrow> length r1 = 1 + length (filter isDelete r1)) \<and>
      (y = None \<and> filter isDelete r1 \<noteq> [] \<longrightarrow> map Method r1 = [''GET'', ''DELETE''])"
    by (rule exE)
  then have r1: "sent s1 = sent s @ r1" "length r1 \<le> 2" "length (filter isDelete r1) \<le> 1"
      "y = None \<longrightarrow> length r1 = 1 + length (filter isDelete r1)"
      "y = None \<and> filter isDelete r1 \<noteq> [] \<longrightarrow> map Method r1 = [''GET'', ''DELETE'']"
    by blast+
  show ?case
  proof (cases y)
    case (Some e)
    with Cons.prems it have res: "x = Some e" "s' = s1" by auto
    have "sent s' = sent s @ r1" using res r1(1) by simp
    moreover have "length r1 \<le> 2 * length (r # rest)" using r1(2) by simp
    moreover have "length (filter isDelete r1) \<le> length (r # rest)" using r1(3) by simp
    ultimately show ?thesis using res by (intro exI [of _ r1]) simp
  next
    case None
    with Cons.prems it have "deleteLoop h c ep (Suc i) rest s1 = (x, s')" by auto
    then have "\<exists>reqs. sent s' = sent s1 @ reqs \<and> length reqs \<le> 2 * length rest \<and>
           length (filter isDelete reqs) \<le> length rest \<and>
           (x = None \<longrightarrow> length reqs = length rest + length (filter isDelete reqs)) \<and>
           (x = None \<and> length (filter isDelete reqs) = length rest \<longrightarrow>
              map Method reqs = refetchDelete (length rest))"
      by (rule Cons.IH [rotated]) simp
    then obtain r2 where
      all2: "sent s' = sent s1 @ r2 \<and> length r2 \<le> 2 * length rest \<and>
        length (filter isDelete r2) \<le> length rest \<and>
        (x = None \<longrightarrow> length r2 = length rest + length (filter isDelete r2)) \<and>
        (x = None \<and> length (filter isDelete r2) = length rest \<longrightarrow>
              map Method r2 = refetchDelete (length rest))"
      by (rule exE)
    then have r2: "sent s' = sent s1 @ r2" "length r2 \<le> 2 * length rest"
        "length (filter isDelete r2) \<le> length rest"
        "x = None \<longrightarrow> length r2 = length rest + length (filter isDelete r2)"
        "x = None \<and> length (filter isDelete r2) = length rest \<longrightarrow>
              map Method r2 = refetchDelete (length rest)"
      by blast+
    have one: "length r1 = 1 + length (filter isDelete r1)" using r1(4) None by simp
    have snt: "sent s' = sent s @ (r1 @ r2)" using r1(1) r2(1) by simp
    have len: "length (r1 @ r2) \<le> 2 * length (r # rest)" using r1(2) r2(2) by simp
    have dl: "length (filter isDelete (r1 @ r2)) \<le> length (r # rest)"
      using r1(3) r2(3) by simp
    have cnt: "x = None \<longrightarrow>
        length (r1 @ r2) = length (r # rest) + length (filter isDelete (r1 @ r2))"
      using one r2(4) by simp
    have shape: "x = None \<and> length (filter isDelete (r1 @ r2)) = length (r # rest) \<longrightarrow>
              map Method (r1 @ r2) = refetchDelete (length (r # rest))"
    proof
      assume a: "x = None \<and> length (filter isDelete (r1 @ r2)) = length (r # rest)"
      then have "length (filter isDelete r1) + length (filter isDelete r2) = Suc (length rest)"
        by simp
      with r1(3) r2(3) have d1: "length (filter isDelete r1) = 1"
        and d2: "length (filter isDelete r2) = length rest"
        by arith+
      from d1 have "filter isDelete r1 \<noteq> []" by auto
      with r1(5) None have m1: "map Method r1 = [''GET'', ''DELETE'']" by simp
      from a d2 r2(5) have m2: "map Method r2 = refetchDelete (length rest)" by simp
      from m1 m2 show "map Method (r1 @ r2) = refetchDelete (length (r # rest))"
        by (simp add: refetchDelete_def)
    qed
    from snt len dl cnt shape show ?thesis by (intro exI [of _ "r1 @ r2"]) blast
  qed
qed

lemma deleteLoop_zero_count:
  assumes "deleteLoop h c ep 0 (r # rest) s = (x, s')"
  shows "\<exists>reqs. sent s' = sent s @ reqs \<and> length reqs \<le> 2 * length rest + 1 \<and>
           length (filter isDelete reqs) \<le> length rest + 1 \<and>
           (x = None \<longrightarrow> length reqs = length rest + length (filter isDelete reqs)) \<and>
           (x = None \<and> length (filter isDelete reqs) = length rest + 1 \<longrightarrow>
              map Method reqs = ''DELETE'' # refetchDelete (length rest))"
proof -
  obtain y s1 where it: "deleteIteration h c ep 0 r s = (y, s1)"
    by (cases "deleteIteration h c ep 0 r s")
  note zero = deleteIteration_zero [OF it]
  show ?thesis
  proof (cases y)
    case (Some e)
    with assms it have res: "x = Some e" "s' = s1" by auto
    from zero show ?thesis
    proof
      assume "\<exists>e. y = Some e \<and> s1 = s"
      with res show ?thesis by (intro exI [of _ "[]"]) simp
    next
      assume "sent s1 = sent s @ [deleteRequest c (ID r)]"
      with res show ?thesis by (intro exI [of _ "[deleteRequest c (ID r)]"]) simp
    qed
  next
    case None
    with zero have s1: "sent s1 = sent s @ [deleteRequest c (ID r)]" by simp
    from None assms it have "deleteLoop h c ep (Suc 0) rest s1 = (x, s')" by auto
    then have "\<exists>reqs. sent s' = sent s1 @ reqs \<and> length reqs \<le> 2 * length rest \<and>
           length (filter isDelete reqs) \<le> length rest \<and>
           (x = None \<longrightarrow> length reqs = length rest + length (filter isDelete reqs)) \<and>
           (x = None \<and> length (filter isDelete reqs) = length rest \<longrightarrow>
              map Method reqs = refetchDelete (length rest))"
      by (rule deleteLoop_pos_count [rotated]) simp
    then obtain r2 where
      all2: "sent s' = sent s1 @ r2 \<and> length r2 \<le> 2 * length rest \<and>
        length (filter isDelete r2) \<le> length rest \<and>
        (x = None \<longrightarrow> length r2 = length rest + length (filter isDelete r2)) \<and>
        (x = None \<and> length (filter isDelete r2) = length rest \<longrightarrow>
              map Method r2 = refetchDelete (length rest))"
      by (rule exE)
    then have r2: "sent s' = sent s1 @ r2" "length r2 \<le> 2 * length rest"
        "length (filter isDelete r2) \<le> length rest"
        "x = None \<longrightarrow> length r2 = length rest + length (filter isDelete r2)"
        "x = None \<and> length (filter isDelete r2) = length rest \<longrightarrow>
              map Method r2 = refetchDelete (length rest)"
      by blast+
    let ?reqs = "deleteRequest c (ID r) # r2"
    have a: "sent s' = sent s @ ?reqs" using s1 r2(1) by simp
    have b: "length ?reqs \<le> 2 * length rest + 1" using r2(2) by simp
    have d: "length (filter isDelete ?reqs) \<le> length rest + 1" using r2(3) by simp
    have e: "x = None \<longrightarrow> length ?reqs = length rest + length (filter isDelete ?reqs)"
      using r2(4) by simp
    have f: "x = None \<and> length (filter isDelete ?reqs) = length rest + 1 \<longrightarrow>
              map Method ?reqs = ''DELETE'' # refetchDelete (length rest)"
      using r2(5) by simp
    from a b d e f show ?thesis by (intro exI [of _ ?reqs]) blast
  qed
qed

lemmas delete_run_simps =
  DeleteDNSRecords_def GetDNSRecordsByName_def deleteIteration_def performDeletion_def
  doRequest_def scripted_def start_def ok_def failure_def exampleClient_def
  exampleEndpoint_def aRecord_def zeroRecord_def fetchRequest_def deleteRequest_def
  requestOf_def issued_def isDelete_def refetchDelete_def


section \<open>The delete loop against the mock server\<close>

lemma recordsMatch_matchKey: "recordsMatch a b \<longleftrightarrow> matchKey a = matchKey b"
  by (auto simp: matchKey_def)









lemma storedCandidates_requests [simp]:
  "storedCandidates c ep (m\<lparr>requests := reqs\<rparr>) = storedCandidates c ep m"
  by (simp add: storedCandidates_def)

lemma mockServing_requests [simp]:
  "mockServing (m\<lparr>requests := reqs\<rparr>) = mockServing m"
  by (simp add: mockServing_def)












section \<open>Construction\<close>

text \<open>
  C9. Constructing a client with an empty ownership tag fails with the empty-comment
  error and returns no client; with a non-empty tag the construction fails only if the
  cookie jar cannot be made, and otherwise returns the client holding the given defaults
  and configuration.
\<close>

theorem NewMikrotikClient_requires_comment:
  "NewMikrotikClient jar config defaults =
     (if DefaultComment defaults = '''' then Inl EmptyDefaultComment
      else case jar of
             Some err \<Rightarrow> Inl err
           | None \<Rightarrow> Inr \<lparr>Defaults = defaults, ConnectionConfig = config,
                           InsecureSkipVerify = SkipTLSVerify config\<rparr>)"
  by (simp add: NewMikrotikClient_def)

theorem NewMikrotikClient_requires_comment_witness:
  "NewMikrotikClient None (ConnectionConfig exampleClient)
       \<lparr>DefaultTTL = 3600, DefaultComment = ''''\<rparr> = Inl EmptyDefaultComment \<and>
   NewMikrotikClient None (ConnectionConfig exampleClient) (Defaults exampleClient)
     = Inr exampleClient"
  using NewMikrotikClient_requires_comment
          [of None "ConnectionConfig exampleClient" "\<lparr>DefaultTTL = 3600, DefaultComment = ''''\<rparr>"]
        NewMikrotikClient_requires_comment
          [of None "ConnectionConfig exampleClient" "Defaults exampleClient"]
  by (simp add: exampleClient_def)

section \<open>The semantic matcher\<close>

text \<open>
  C10. For a record of kind A, AAAA, CNAME, TXT, MX, SRV or NS, \<open>recordsMatch\<close> does not
  look at ID, TTL, comment, disabled or address-list: changing them in either record
  leaves the verdict as it is, and a record matches every copy of itself that differs
  in those fields only. For a kind outside the set the verdict is: equal name, equal
  kind and equal comment. Altogether two records match exactly when they agree on
  \<open>matchKey\<close>: the name, the kind and the target fields of the kind (the comment for a
  kind outside the seven).
\<close>

theorem recordsMatch_target_fields_only:
  "(Type a \<in> {''A'', ''AAAA'', ''CNAME'', ''TXT'', ''MX'', ''SRV'', ''NS''} \<longrightarrow>
      recordsMatch (a\<lparr>ID := i, TTL := t, Comment := cm, Disabled := d, AddressList := l\<rparr>)
                   (b\<lparr>ID := i', TTL := t', Comment := cm', Disabled := d', AddressList := l'\<rparr>)
        = recordsMatch a b \<and>
      recordsMatch a (a\<lparr>ID := i', TTL := t', Comment := cm', Disabled := d', AddressList := l'\<rparr>)) \<and>
   (Type a \<notin> {''A'', ''AAAA'', ''CNAME'', ''TXT'', ''MX'', ''SRV'', ''NS''} \<longrightarrow>
      recordsMatch a b = (Name a = Name b \<and> Type a = Type b \<and> Comment a = Comment b)) \<and>
   (recordsMatch a b \<longleftrightarrow> matchKey a = matchKey b)"
proof (intro conjI)
  show "Type a \<in> {''A'', ''AAAA'', ''CNAME'', ''TXT'', ''MX'', ''SRV'', ''NS''} \<longrightarrow>
      recordsMatch (a\<lparr>ID := i, TTL := t, Comment := cm, Disabled := d, AddressList := l\<rparr>)
                   (b\<lparr>ID := i', TTL := t', Comment := cm', Disabled := d', AddressList := l'\<rparr>)
        = recordsMatch a b \<and>
      recordsMatch a (a\<lparr>ID := i', TTL := t', Comment := cm', Disabled := d', AddressList := l'\<rparr>)"
    by auto
  show "Type a \<notin> {''A'', ''AAAA'', ''CNAME'', ''TXT'', ''MX'', ''SRV'', ''NS''} \<longrightarrow>
      recordsMatch a b = (Name a = Name b \<and> Type a = Type b \<and> Comment a = Comment b)"
    by auto
  show "recordsMatch a b \<longleftrightarrow> matchKey a = matchKey b"
    by (rule recordsMatch_matchKey)
qed

theorem recordsMatch_target_fields_only_witness:
  "recordsMatch (aRecord ''*1'' ''multi.example.com'' ''5.6.7.8'' ''external-dns'')
     ((aRecord ''*1'' ''multi.example.com'' ''5.6.7.8'' ''external-dns'')
        \<lparr>ID := ''*7'', TTL := ''1h'', Comment := ''manual'', Disabled := ''true'',
         AddressList := ''lan''\<rparr>) \<and>
   \<not> recordsMatch (zeroRecord\<lparr>Type := ''PTR'', Comment := ''external-dns''\<rparr>)
       (zeroRecord\<lparr>Type := ''PTR'', Comment := ''manual''\<rparr>)"
  using recordsMatch_target_fields_only
          [where a = "aRecord ''*1'' ''multi.example.com'' ''5.6.7.8'' ''external-dns''"
             and i' = "''*7''" and t' = "''1h''" and cm' = "''manual''" and d' = "''true''"
             and l' = "''lan''"]
        recordsMatch_target_fields_only
          [where a = "zeroRecord\<lparr>Type := ''PTR'', Comment := ''external-dns''\<rparr>"
             and b = "zeroRecord\<lparr>Type := ''PTR'', Comment := ''manual''\<rparr>"]
  by (simp add: aRecord_def zeroRecord_def)

section \<open>Transport\<close>

text \<open>
  C7, as the code has it. A response whose status code is outside 200..299 makes
  \<open>doRequest\<close> fail, and the error holds the response's status line and nothing else:
  the method and the path of the request are not part of it (they are only logged before
  the request is sent).
\<close>

theorem doRequest_non_2xx:
  assumes "NewRequestError h method (BaseUrl (ConnectionConfig c) @ ''/rest/'' @ path) queryParams = None"
    and "Do h (requestOf c method path queryParams body) (world s) = (Inr resp, w')"
    and "StatusCode resp < 200 \<or> StatusCode resp > 299"
  shows "doRequest h c method path queryParams body s =
           (Inl (RequestFailed (Status resp)),
            \<lparr>world = w', sent = sent s @ [requestOf c method path queryParams body]\<rparr>)"
  using assms by (simp add: doRequest_passed)

theorem doRequest_non_2xx_witness:
  "doRequest scripted exampleClient ''DELETE'' ''ip/dns/static/*1'' [] None
     (start [failure 404 ''404 Not Found''])
   = (Inl (RequestFailed ''404 Not Found''),
      \<lparr>world = [], sent = [deleteRequest exampleClient ''*1'']\<rparr>)"
  using doRequest_non_2xx [of scripted "''DELETE''" exampleClient "''ip/dns/static/*1''" "[]" None
          "start [failure 404 ''404 Not Found'']"
          "\<lparr>StatusCode = 404, Status = ''404 Not Found'', RespBody = OtherBody ''404 Not Found''\<rparr>" "[]"]
  by (simp add: scripted_def start_def failure_def deleteRequest_def)

text \<open>
  C7 as stated does not hold: a GET of one path and a DELETE of another, both answered
  with 404, fail with one and the same error, so the error carries neither the method
  nor the path.
\<close>

theorem doRequest_error_same_for_all_requests:
  "fst (doRequest scripted exampleClient ''GET'' ''system/resource'' [] None
          (start [failure 404 ''404 Not Found'']))
     = Inl (RequestFailed ''404 Not Found'') \<and>
   fst (doRequest scripted exampleClient ''DELETE'' ''ip/dns/static/*1'' [] None
          (start [failure 404 ''404 Not Found'']))
     = Inl (RequestFailed ''404 Not Found'')"
  by (simp add: doRequest_def scripted_def start_def failure_def exampleClient_def)

section \<open>The candidates of a deletion\<close>



section \<open>The create pipeline\<close>

text \<open>
  C3. \<open>CreateDNSRecords\<close> sends one create per record, in the order of the records
  (one per target), and stops at the first create that fails: it returns the records
  that the creates before it returned, together with an error naming the position of
  the failed create; the requests it issued are the creates of the records up to and
  including the failed one (or up to it, if the request could not be built), and no
  delete is among them. So when the third of five creates fails, the first two created
  records come back with the error, and three creates were sent.
\<close>

theorem CreateDNSRecords_stops_at_first_failure:
  assumes "newDNSRecords ep = Inr recs"
    and "CreateDNSRecords newDNSRecords h c ep s = ((created, err), s')"
  shows "created = createdUntilFailure h c (map (setComment c) recs) s \<and>
     (\<exists>k. k \<le> length recs \<and>
        issued s s' = map (createRequest c) (take k (map (setComment c) recs)) \<and>
        (case err of
           None \<Rightarrow> k = length recs \<and> length created = length recs
         | Some e \<Rightarrow>
             length created < length recs \<and> length created \<le> k \<and>
             k \<le> length created + 1 \<and>
             (\<exists>e0. e = FailedToCreateRecord (length created + 1) e0))) \<and>
     filter isDelete (issued s s') = []"
proof -
  from CreateDNSRecords_run [OF assms] obtain k where
    cr: "created = createdUntilFailure h c (map (setComment c) recs) s"
    and k: "k \<le> length recs"
    and snt: "sent s' = sent s @ map (createRequest c) (take k (map (setComment c) recs))"
    and e: "(case err of
           None \<Rightarrow> k = length recs \<and> length created = length recs
         | Some e \<Rightarrow>
             length created < length recs \<and> length created \<le> k \<and>
             k \<le> length created + 1 \<and>
             (\<exists>e0. e = FailedToCreateRecord (length created + 1) e0))"
    by blast
  have "filter isDelete (issued s s') = []"
    using snt by (simp add: filter_empty_conv isDelete_def createRequest_def requestOf_def)
  with cr k snt e show ?thesis
    by (intro conjI exI [of _ k]) simp_all
qed

theorem CreateDNSRecords_stops_at_first_failure_witness:
  "CreateDNSRecords exampleNewDNSRecords scripted exampleClient
     (exampleEndpoint [''10.0.0.1'', ''10.0.0.2'', ''10.0.0.3'', ''10.0.0.4'', ''10.0.0.5''])
     (start [ok (JSONRecord (aRecord ''*1'' ''multi.example.com'' ''10.0.0.1'' ''external-dns'')),
             ok (JSONRecord (aRecord ''*2'' ''multi.example.com'' ''10.0.0.2'' ''external-dns'')),
             failure 500 ''500 Internal Server Error'',
             ok (JSONRecord (aRecord ''*3'' ''multi.example.com'' ''10.0.0.4'' ''external-dns'')),
             ok (JSONRecord (aRecord ''*4'' ''multi.example.com'' ''10.0.0.5'' ''external-dns''))])
   = (([aRecord ''*1'' ''multi.example.com'' ''10.0.0.1'' ''external-dns'',
        aRecord ''*2'' ''multi.example.com'' ''10.0.0.2'' ''external-dns''],
       Some (FailedToCreateRecord 3 (RequestFailed ''500 Internal Server Error''))),
      \<lparr>world = [ok (JSONRecord (aRecord ''*3'' ''multi.example.com'' ''10.0.0.4'' ''external-dns'')),
                ok (JSONRecord (aRecord ''*4'' ''multi.example.com'' ''10.0.0.5'' ''external-dns''))],
       sent = [createRequest exampleClient (aRecord [] ''multi.example.com'' ''10.0.0.1'' ''external-dns''),
               createRequest exampleClient (aRecord [] ''multi.example.com'' ''10.0.0.2'' ''external-dns''),
               createRequest exampleClient (aRecord [] ''multi.example.com'' ''10.0.0.3'' ''external-dns'')]\<rparr>)"
proof -
  let ?ep = "exampleEndpoint [''10.0.0.1'', ''10.0.0.2'', ''10.0.0.3'', ''10.0.0.4'', ''10.0.0.5'']"
  let ?s = "start [ok (JSONRecord (aRecord ''*1'' ''multi.example.com'' ''10.0.0.1'' ''external-dns'')),
             ok (JSONRecord (aRecord ''*2'' ''multi.example.com'' ''10.0.0.2'' ''external-dns'')),
             failure 500 ''500 Internal Server Error'',
             ok (JSONRecord (aRecord ''*3'' ''multi.example.com'' ''10.0.0.4'' ''external-dns'')),
             ok (JSONRecord (aRecord ''*4'' ''multi.example.com'' ''10.0.0.5'' ''external-dns''))]"
  obtain created err s' where
    run: "CreateDNSRecords exampleNewDNSRecords scripted exampleClient ?ep ?s = ((created, err), s')"
    by (metis prod.exhaust)
  have conv: "exampleNewDNSRecords ?ep = Inr (map (\<lambda>target. aRecord [] (DNSName ?ep) target ''set by the caller'') (Targets ?ep))"
    by (simp add: exampleNewDNSRecords_def)
  from CreateDNSRecords_stops_at_first_failure [OF conv run]
  have "created = createdUntilFailure scripted exampleClient
          (map (setComment exampleClient)
             (map (\<lambda>target. aRecord [] (DNSName ?ep) target ''set by the caller'') (Targets ?ep))) ?s"
    by blast
  then have "created = [aRecord ''*1'' ''multi.example.com'' ''10.0.0.1'' ''external-dns'',
        aRecord ''*2'' ''multi.example.com'' ''10.0.0.2'' ''external-dns'']"
    by (simp add: run_simps)
  with run show ?thesis
    by (simp add: run_simps numeral_3_eq_3)
qed

text \<open>
  C6. Every request that \<open>CreateDNSRecords\<close> sends is a create whose record carries
  the client's ownership tag as its comment; and the call behaves as if the conversion
  had produced that comment itself, so a comment of the caller's is overridden and
  never a reason for an error.
\<close>

theorem CreateDNSRecords_forces_comment:
  "(\<forall>req \<in> set (issued s (snd (CreateDNSRecords newDNSRecords h c ep s))).
      Method req = ''PUT'' \<and>
      (\<exists>r. Body req = Some r \<and> Comment r = DefaultComment (Defaults c))) \<and>
   CreateDNSRecords newDNSRecords h c ep s =
     CreateDNSRecords (\<lambda>e. map_sum id (map (setComment c)) (newDNSRecords e)) h c ep s"
proof (cases "newDNSRecords ep")
  case (Inl e)
  then show ?thesis by (simp add: CreateDNSRecords_def issued_def)
next
  case (Inr recs)
  obtain created err s' where
    run: "CreateDNSRecords newDNSRecords h c ep s = ((created, err), s')"
    by (metis prod.exhaust)
  from CreateDNSRecords_run [OF Inr run] obtain k where
    "sent s' = sent s @ map (createRequest c) (take k (map (setComment c) recs))"
    by blast
  then have iss: "issued s s' = map (createRequest c) (take k (map (setComment c) recs))"
    by simp
  have "Method req = ''PUT'' \<and> (\<exists>r. Body req = Some r \<and> Comment r = DefaultComment (Defaults c))"
    if "req \<in> set (issued s s')" for req
  proof -
    from that iss obtain r where r: "r \<in> set (take k (map (setComment c) recs))"
      and req: "req = createRequest c r" by auto
    from r have "r \<in> set (map (setComment c) recs)" by (rule in_set_takeD)
    then have "Comment r = DefaultComment (Defaults c)" by (auto simp: setComment_def)
    with req show ?thesis by (simp add: createRequest_def requestOf_def)
  qed
  then have all: "\<forall>req \<in> set (issued s (snd (CreateDNSRecords newDNSRecords h c ep s))).
      Method req = ''PUT'' \<and>
      (\<exists>r. Body req = Some r \<and> Comment r = DefaultComment (Defaults c))"
    using run by simp
  have same: "CreateDNSRecords newDNSRecords h c ep s =
     CreateDNSRecords (\<lambda>e. map_sum id (map (setComment c)) (newDNSRecords e)) h c ep s"
    using Inr by (simp add: CreateDNSRecords_def setComment_def o_def)
  from all same show ?thesis by (rule conjI)
qed

theorem CreateDNSRecords_forces_comment_witness:
  "exampleNewDNSRecords (exampleEndpoint [''1.2.3.4'', ''5.6.7.8''])
     = Inr [aRecord [] ''multi.example.com'' ''1.2.3.4'' ''set by the caller'',
            aRecord [] ''multi.example.com'' ''5.6.7.8'' ''set by the caller''] \<and>
   map Body (issued (start [ok (JSONRecord zeroRecord), ok (JSONRecord zeroRecord)])
     (snd (CreateDNSRecords exampleNewDNSRecords scripted exampleClient
            (exampleEndpoint [''1.2.3.4'', ''5.6.7.8''])
            (start [ok (JSONRecord zeroRecord), ok (JSONRecord zeroRecord)]))))
     = [Some (aRecord [] ''multi.example.com'' ''1.2.3.4'' ''external-dns''),
        Some (aRecord [] ''multi.example.com'' ''5.6.7.8'' ''external-dns'')] \<and>
   snd (fst (CreateDNSRecords exampleNewDNSRecords scripted exampleClient
            (exampleEndpoint [''1.2.3.4'', ''5.6.7.8''])
            (start [ok (JSONRecord zeroRecord), ok (JSONRecord zeroRecord)]))) = None"
  using CreateDNSRecords_forces_comment [of "start [ok (JSONRecord zeroRecord), ok (JSONRecord zeroRecord)]"
          exampleNewDNSRecords scripted exampleClient "exampleEndpoint [''1.2.3.4'', ''5.6.7.8'']"]
  by (simp add: run_simps)

section \<open>The delete loop\<close>



text \<open>
  C8. When the first fetch succeeds and yields \<open>N \<ge> 1\<close> candidates,
  \<open>DeleteDNSRecords\<close> issues at most \<open>1 + (2 * N - 1)\<close> requests, of which at most
  \<open>N\<close> are deletes. A call that ends without error has issued \<open>N\<close> requests plus one
  per delete; so the bound is reached when no call failed and no candidate was skipped,
  and then the requests are: the fetch, the delete of the first candidate, and a
  re-fetch followed by a delete for each further candidate.
\<close>

theorem DeleteDNSRecords_call_count:
  assumes "GetDNSRecordsByName h c (DNSName ep) s = (Inr allRecords, s1)"
    and "N = length (collectRecordsToDelete c ep allRecords [])"
    and "1 \<le> N"
    and "DeleteDNSRecords h c ep s = (err, s')"
  shows "length (issued s s') \<le> 1 + (2 * N - 1) \<and>
         length (filter isDelete (issued s s')) \<le> N \<and>
         (err = None \<longrightarrow> length (issued s s') = N + length (filter isDelete (issued s s'))) \<and>
         (err = None \<and> length (filter isDelete (issued s s')) = N \<longrightarrow>
            length (issued s s') = 1 + (2 * N - 1) \<and>
            map Method (issued s s') = ''GET'' # ''DELETE'' # refetchDelete (N - 1))"
proof -
  from assms(2,3) obtain r rest where
    cands: "collectRecordsToDelete c ep allRecords [] = r # rest" and N: "N = Suc (length rest)"
    by (cases "collectRecordsToDelete c ep allRecords []") auto
  from GetDNSRecordsByName_log [OF assms(1)]
  have s1: "sent s1 = sent s @ [fetchRequest c (DNSName ep)]" by simp
  from assms(1,4) cands have "deleteLoop h c ep 0 (r # rest) s1 = (err, s')"
    by (simp add: DeleteDNSRecords_def)
  from deleteLoop_zero_count [OF this] obtain reqs where
    all: "sent s' = sent s1 @ reqs \<and> length reqs \<le> 2 * length rest + 1 \<and>
           length (filter isDelete reqs) \<le> length rest + 1 \<and>
           (err = None \<longrightarrow> length reqs = length rest + length (filter isDelete reqs)) \<and>
           (err = None \<and> length (filter isDelete reqs) = length rest + 1 \<longrightarrow>
              map Method reqs = ''DELETE'' # refetchDelete (length rest))"
    by (rule exE)
  then have reqs: "sent s' = sent s1 @ reqs" "length reqs \<le> 2 * length rest + 1"
      "length (filter isDelete reqs) \<le> length rest + 1"
      "err = None \<longrightarrow> length reqs = length rest + length (filter isDelete reqs)"
      "err = None \<and> length (filter isDelete reqs) = length rest + 1 \<longrightarrow>
              map Method reqs = ''DELETE'' # refetchDelete (length rest)"
    by blast+
  have iss: "issued s s' = fetchRequest c (DNSName ep) # reqs"
    using s1 reqs(1) by (simp add: issued_def)
  have a: "length (issued s s') \<le> 1 + (2 * N - 1)" using iss reqs(2) N by simp
  have b: "length (filter isDelete (issued s s')) \<le> N" using iss reqs(3) N by simp
  have d: "err = None \<longrightarrow> length (issued s s') = N + length (filter isDelete (issued s s'))"
    using iss reqs(4) N by simp
  have e: "err = None \<and> length (filter isDelete (issued s s')) = N \<longrightarrow>
            length (issued s s') = 1 + (2 * N - 1) \<and>
            map Method (issued s s') = ''GET'' # ''DELETE'' # refetchDelete (N - 1)"
    using iss reqs(4,5) N by simp
  from a b d e show ?thesis by blast
qed

theorem DeleteDNSRecords_call_count_witness:
  "map Method (issued
     (start [ok (JSONRecords [aRecord ''*1'' ''multi.example.com'' ''1.2.3.4'' ''external-dns'',
                              aRecord ''*2'' ''multi.example.com'' ''5.6.7.8'' ''external-dns'']),
             ok (OtherBody []),
             ok (JSONRecords [aRecord ''*1'' ''multi.example.com'' ''5.6.7.8'' ''external-dns'']),
             ok (OtherBody [])])
     (snd (DeleteDNSRecords scripted exampleClient (exampleEndpoint [])
       (start [ok (JSONRecords [aRecord ''*1'' ''multi.example.com'' ''1.2.3.4'' ''external-dns'',
                              aRecord ''*2'' ''multi.example.com'' ''5.6.7.8'' ''external-dns'']),
             ok (OtherBody []),
             ok (JSONRecords [aRecord ''*1'' ''multi.example.com'' ''5.6.7.8'' ''external-dns'']),
             ok (OtherBody [])]))))
   = [''GET'', ''DELETE'', ''GET'', ''DELETE'']"
proof -
  let ?s = "start [ok (JSONRecords [aRecord ''*1'' ''multi.example.com'' ''1.2.3.4'' ''external-dns'',
                              aRecord ''*2'' ''multi.example.com'' ''5.6.7.8'' ''external-dns'']),
             ok (OtherBody []),
             ok (JSONRecords [aRecord ''*1'' ''multi.example.com'' ''5.6.7.8'' ''external-dns'']),
             ok (OtherBody [])]"
  let ?all = "[aRecord ''*1'' ''multi.example.com'' ''1.2.3.4'' ''external-dns'',
               aRecord ''*2'' ''multi.example.com'' ''5.6.7.8'' ''external-dns'']"
  obtain err s' where run: "DeleteDNSRecords scripted exampleClient (exampleEndpoint []) ?s = (err, s')"
    by (cases "DeleteDNSRecords scripted exampleClient (exampleEndpoint []) ?s")
  have fetch: "GetDNSRecordsByName scripted exampleClient (DNSName (exampleEndpoint [])) ?s
      = (Inr ?all, snd (GetDNSRecordsByName scripted exampleClient (DNSName (exampleEndpoint [])) ?s))"
    by (simp add: delete_run_simps)
  have N: "2 = length (collectRecordsToDelete exampleClient (exampleEndpoint []) ?all [])"
    by (simp add: delete_run_simps)
  have err: "err = None" and dels: "length (filter isDelete (issued ?s s')) = 2"
    using run by (auto simp add: delete_run_simps)
  from DeleteDNSRecords_call_count [OF fetch N _ run] err dels
  have "map Method (issued ?s s') = ''GET'' # ''DELETE'' # refetchDelete (2 - 1)"
    by simp
  then show ?thesis using run by (simp add: refetchDelete_def)
qed

text \<open>
  C2 says that a fetched record whose comment differs from the ownership tag is never a
  candidate and never has a delete issued for it, even when its name, kind and target
  match the endpoint. The code keeps the first half (\<open>candidates_carry_tag\<close>) and breaks
  the second for the candidates after the first: the search in the re-fetched records
  uses \<open>recordsMatch\<close>, which does not compare the comments of A records. Here the
  server answers both fetches with all records of the name, as the server of
  \<open>TestDeleteDNSRecords\<close> does: the candidates are \<open>*1\<close> and \<open>*3\<close>, and the second
  delete goes to \<open>*2\<close>, the record with the comment \<open>manual\<close>.
\<close>

theorem DeleteDNSRecords_deletes_foreign_record:
  "collectRecordsToDelete exampleClient (exampleEndpoint [''1.2.3.4'', ''5.6.7.8''])
     [aRecord ''*1'' ''multi.example.com'' ''1.2.3.4'' ''external-dns'',
      aRecord ''*2'' ''multi.example.com'' ''5.6.7.8'' ''manual'',
      aRecord ''*3'' ''multi.example.com'' ''5.6.7.8'' ''external-dns''] []
   = [aRecord ''*1'' ''multi.example.com'' ''1.2.3.4'' ''external-dns'',
      aRecord ''*3'' ''multi.example.com'' ''5.6.7.8'' ''external-dns''] \<and>
   DeleteDNSRecords scripted exampleClient (exampleEndpoint [''1.2.3.4'', ''5.6.7.8''])
     (start [ok (JSONRecords
                   [aRecord ''*1'' ''multi.example.com'' ''1.2.3.4'' ''external-dns'',
                    aRecord ''*2'' ''multi.example.com'' ''5.6.7.8'' ''manual'',
                    aRecord ''*3'' ''multi.example.com'' ''5.6.7.8'' ''external-dns'']),
             ok (OtherBody []),
             ok (JSONRecords
                   [aRecord ''*2'' ''multi.example.com'' ''5.6.7.8'' ''manual'',
                    aRecord ''*3'' ''multi.example.com'' ''5.6.7.8'' ''external-dns'']),
             ok (OtherBody [])])
   = (None, \<lparr>world = [],
             sent = [fetchRequest exampleClient ''multi.example.com'',
                     deleteRequest exampleClient ''*1'',
                     fetchRequest exampleClient ''multi.example.com'',
                     deleteRequest exampleClient ''*2'']\<rparr>)"
  by (simp add: delete_run_simps)

section \<open>Deleting what is absent\<close>



end
